theory Spec2Isabelle
  imports Main "HOL-Library.Sublist"
begin

section \<open>Values, errors and the bridge to the remote engine\<close>

text \<open>
  The binding layer of \<^verbatim>\<open>context.py\<close> and \<^verbatim>\<open>keytable.py\<close> computes almost nothing:
  it builds argument lists, calls methods of objects that live in the remote engine, and
  wraps what comes back. The model therefore records every call that crosses the bridge
  in a trace, and lets an arbitrary oracle answer it.

  \<open>val\<close> is the universe of Python values the layer handles. \<open>VObj\<close> is a handle of an
  object that lives outside this layer (a JVM object behind the py4j gateway, or a pyspark
  object). The marshalling helpers of \<^verbatim>\<open>hail.java\<close> (\<^verbatim>\<open>jindexed_seq_args\<close>, \<^verbatim>\<open>joption\<close>,
  \<^verbatim>\<open>jarray\<close>, \<^verbatim>\<open>scala_package_object\<close>) and the methods \<^verbatim>\<open>_to_java\<close> and \<^verbatim>\<open>_jrep\<close> of the
  configuration and distribution classes are not among the sources: each is a free
  constructor applied to its argument, so that the model neither assumes nor denies
  anything about what they compute. A finite Python float is \<open>VFloat m e\<close>, read as
  \<open>m * 2 ^ e\<close>.
\<close>

datatype val =
    VNone
  | VBool bool
  | VInt int
  | VFloat int int
  | VStr string
  | VList "val list"
  | VDict "(val \<times> val) list"
  | VObj nat
  | VMember val string
  | VIndexedSeqArgs val
  | VOption val
  | VArray val val
  | VScalaPackageObject val
  | VToJava val
  | VJrep val
  | VTextTableConfig

datatype pyerr =
    Py4JJavaError val
  | FatalError val
  | TypeError
  | AttributeError
  | AssertionError

record jcall =
  recv :: val
  meth :: string
  args :: "val list"

text \<open>
  The environment of a run. \<open>remote\<close> is the engine: given the calls made so far and the
  call made now, it fails with a remote exception (\<open>Inl\<close>) or answers with a value; its
  answer may depend on the history, so the same accessor may answer differently later.
  \<open>type_from_java\<close> and \<open>is_TStruct\<close> stand for \<^verbatim>\<open>Type._from_java\<close> and
  \<^verbatim>\<open>isinstance(_, TStruct)\<close> of \<^verbatim>\<open>hail.type\<close>, which is not among the sources: they are
  parameters.
\<close>

record env =
  remote :: "jcall list \<Rightarrow> jcall \<Rightarrow> val + val"
  type_from_java :: "val \<Rightarrow> pyerr + val"
  is_TStruct :: "val \<Rightarrow> bool"

text \<open>
  A method runs on a state: the receiver object \<open>self\<close>, whose fields it may assign, and
  the trace of calls made so far, oldest first. It returns a value or raises.
\<close>

record 'o pystate =
  self :: 'o
  calls :: "jcall list"

type_synonym ('o, 'a) py = "'o pystate \<Rightarrow> (pyerr + 'a) \<times> 'o pystate"

definition ret :: "'a \<Rightarrow> ('o, 'a) py" where
  "ret x s = (Inr x, s)"

definition raise :: "pyerr \<Rightarrow> ('o, 'a) py" where
  "raise e s = (Inl e, s)"

definition lift :: "pyerr + 'a \<Rightarrow> ('o, 'a) py" where
  "lift r s = (r, s)"

definition bind :: "('o, 'a) py \<Rightarrow> ('a \<Rightarrow> ('o, 'b) py) \<Rightarrow> ('o, 'b) py" where
  "bind m f s = (case m s of (Inl e, s') \<Rightarrow> (Inl e, s') | (Inr a, s') \<Rightarrow> f a s')"

fun is_obj :: "val \<Rightarrow> bool" where
  "is_obj (VObj n) = True"
| "is_obj (VMember x n) = is_obj x"
| "is_obj (VScalaPackageObject x) = is_obj x"
| "is_obj _ = False"

text \<open>
  A method call on a remote object. On a receiver that is no remote object (\<^verbatim>\<open>None\<close>, a
  string, ...) Python raises \<^verbatim>\<open>AttributeError\<close> and nothing crosses the bridge. Otherwise
  the call is appended to the trace, and a remote failure arrives as \<^verbatim>\<open>Py4JJavaError\<close>.
\<close>

definition invoke :: "env \<Rightarrow> val \<Rightarrow> string \<Rightarrow> val list \<Rightarrow> ('o, val) py" where
  "invoke E r m as s =
     (if is_obj r
      then (let c = \<lparr>recv = r, meth = m, args = as\<rparr>
            in ((case remote E (calls s) c of
                   Inl x \<Rightarrow> Inl (Py4JJavaError x)
                 | Inr v \<Rightarrow> Inr v),
                s\<lparr>calls := calls s @ [c]\<rparr>))
      else (Inl AttributeError, s))"

text \<open>
  Modelled from the spec: the decorator \<^verbatim>\<open>handle_py4j\<close> of \<^verbatim>\<open>hail.java\<close> is not among the
  sources. The spec says of it: "propagate the remote call's error verbatim and translate it
  into a local exception". A remote failure raised inside the decorated method becomes
  the local \<open>FatalError\<close> carrying the same remote error; everything else passes.
\<close>

definition handle_py4j :: "('o, 'a) py \<Rightarrow> ('o, 'a) py" where
  "handle_py4j m s =
     (case m s of
        (Inl (Py4JJavaError x), s') \<Rightarrow> (Inl (FatalError x), s')
      | (r, s') \<Rightarrow> (r, s'))"

subsection \<open>Python built-ins the layer uses\<close>

text \<open>Truth value of an object, as \<^verbatim>\<open>if x:\<close> and \<^verbatim>\<open>not x\<close> test it.\<close>

fun py_truthy :: "val \<Rightarrow> bool" where
  "py_truthy VNone = False"
| "py_truthy (VBool b) = b"
| "py_truthy (VInt i) = (i \<noteq> 0)"
| "py_truthy (VFloat m e) = (m \<noteq> 0)"
| "py_truthy (VStr s) = (s \<noteq> [])"
| "py_truthy (VList xs) = (xs \<noteq> [])"
| "py_truthy (VDict kvs) = (kvs \<noteq> [])"
| "py_truthy _ = True"

text \<open>\<^verbatim>\<open>sep.join(xs)\<close>: every element must be a string.\<close>

fun str_join :: "string \<Rightarrow> val list \<Rightarrow> pyerr + string" where
  "str_join sep [] = Inr []"
| "str_join sep [VStr x] = Inr x"
| "str_join sep (VStr x # y # ys) =
     (case str_join sep (y # ys) of Inl e \<Rightarrow> Inl e | Inr r \<Rightarrow> Inr (x @ sep @ r))"
| "str_join sep (x # ys) = Inl TypeError"

text \<open>\<^verbatim>\<open>list(x)\<close> and \<^verbatim>\<open>for k in x\<close>: the elements of an iterable, in order.\<close>

fun py_list :: "val \<Rightarrow> pyerr + val list" where
  "py_list (VList xs) = Inr xs"
| "py_list (VStr s) = Inr (map (\<lambda>c. VStr [c]) s)"
| "py_list (VDict kvs) = Inr (map fst kvs)"
| "py_list _ = Inl TypeError"

text \<open>
  \<^verbatim>\<open>k in column_names\<close> for a list of strings: \<open>k\<close> equals one of them. A value that is no
  string equals no string.
\<close>

fun py_in :: "val \<Rightarrow> string list \<Rightarrow> bool" where
  "py_in (VStr x) cs = (x \<in> set cs)"
| "py_in _ cs = False"

section \<open>The facade objects\<close>

text \<open>
  The fields of a \<^verbatim>\<open>HailContext\<close>, as its constructor assigns them (a leading underscore
  of the source is written \<open>u_\<close>). The constructor itself starts the pyspark gateway and
  is not modelled: the claims are about the methods of an existing context.
\<close>

record hailcontext =
  u_gateway :: val
  u_jvm :: val
  u_hail :: val
  u_jhc :: val
  u_jsc :: val
  sc :: val
  u_jsql_context :: val
  u_sql_context :: val

record keytable =
  hc :: hailcontext
  u_jkt :: val
  u_schema :: val
  u_num_columns :: val
  u_key_names :: val
  u_column_names :: val

text \<open>\<^verbatim>\<open>KeyTable.__init__(self, hc, jkt)\<close>\<close>

definition KeyTable_init :: "hailcontext \<Rightarrow> val \<Rightarrow> keytable" where
  "KeyTable_init h j =
     \<lparr>hc = h, u_jkt = j, u_schema = VNone, u_num_columns = VNone,
      u_key_names = VNone, u_column_names = VNone\<rparr>"

text \<open>
  What a method returns: nothing, a plain value, or one of the facade objects
  \<^verbatim>\<open>KeyTable(hc, jkt)\<close>, \<^verbatim>\<open>VariantDataset(hc, jvds)\<close>, \<^verbatim>\<open>DataFrame(jdf, sql_ctx)\<close>.
\<close>

datatype result =
    RNone
  | RVal val
  | RKeyTable keytable
  | RVariantDataset hailcontext val
  | RDataFrame val val


section \<open>KeyTable\<close>

text \<open>\<^verbatim>\<open>__repr__\<close>: no decorator, the remote answer as it is.\<close>

definition KeyTable_repr :: "env \<Rightarrow> (keytable, val) py" where
  "KeyTable_repr E s = invoke E (u_jkt (self s)) ''toString'' [] s"

subsection \<open>The four properties\<close>

text \<open>
  Each property tests its field against \<^verbatim>\<open>None\<close>, asks the remote object when the
  field is \<^verbatim>\<open>None\<close>, assigns the answer to the field, and returns the field. None of
  them is decorated with \<^verbatim>\<open>handle_py4j\<close>.
\<close>

definition KeyTable_num_columns :: "env \<Rightarrow> (keytable, val) py" where
  "KeyTable_num_columns E s =
     (if u_num_columns (self s) = VNone
      then bind (invoke E (u_jkt (self s)) ''nFields'' [])
             (\<lambda>v s'. (Inr v, s'\<lparr>self := (self s')\<lparr>u_num_columns := v\<rparr>\<rparr>)) s
      else (Inr (u_num_columns (self s)), s))"

text \<open>
  \<^verbatim>\<open>schema\<close> assigns the field before it asserts that the value is a \<^verbatim>\<open>TStruct\<close>: when
  the assertion fails the field stays assigned.
\<close>

definition KeyTable_schema :: "env \<Rightarrow> (keytable, val) py" where
  "KeyTable_schema E s =
     (if u_schema (self s) = VNone
      then bind (invoke E (u_jkt (self s)) ''signature'' [])
             (\<lambda>j. bind (lift (type_from_java E j))
                (\<lambda>t s'. (if is_TStruct E t then Inr t else Inl AssertionError,
                         s'\<lparr>self := (self s')\<lparr>u_schema := t\<rparr>\<rparr>))) s
      else (Inr (u_schema (self s)), s))"

definition KeyTable_key_names :: "env \<Rightarrow> (keytable, val) py" where
  "KeyTable_key_names E s =
     (if u_key_names (self s) = VNone
      then bind (invoke E (u_jkt (self s)) ''keyNames'' [])
             (\<lambda>j. bind (lift (py_list j))
                (\<lambda>xs s'. (Inr (VList xs), s'\<lparr>self := (self s')\<lparr>u_key_names := VList xs\<rparr>\<rparr>))) s
      else (Inr (u_key_names (self s)), s))"

definition KeyTable_column_names :: "env \<Rightarrow> (keytable, val) py" where
  "KeyTable_column_names E s =
     (if u_column_names (self s) = VNone
      then bind (invoke E (u_jkt (self s)) ''fieldNames'' [])
             (\<lambda>j. bind (lift (py_list j))
                (\<lambda>xs s'. (Inr (VList xs), s'\<lparr>self := (self s')\<lparr>u_column_names := VList xs\<rparr>\<rparr>))) s
      else (Inr (u_column_names (self s)), s))"

subsection \<open>The methods\<close>

text \<open>
  Arguments that the source takes as they come (\<^verbatim>\<open>str or list of str\<close>, a dict, a flag)
  are \<open>val\<close>; an argument whose field \<^verbatim>\<open>_jkt\<close> the source reads is a \<open>keytable\<close>; the column
  list of \<^verbatim>\<open>select\<close>, tested with \<^verbatim>\<open>in\<close>, is a list of strings.
\<close>

definition KeyTable_count_rows :: "env \<Rightarrow> (keytable, result) py" where
  "KeyTable_count_rows E =
     handle_py4j (\<lambda>s. bind (invoke E (u_jkt (self s)) ''nRows'' []) (\<lambda>v. ret (RVal v)) s)"

definition KeyTable_same :: "env \<Rightarrow> keytable \<Rightarrow> (keytable, result) py" where
  "KeyTable_same E other =
     handle_py4j (\<lambda>s. bind (invoke E (u_jkt (self s)) ''same'' [u_jkt other])
                        (\<lambda>v. ret (RVal v)) s)"

definition KeyTable_export :: "env \<Rightarrow> val \<Rightarrow> val \<Rightarrow> (keytable, result) py" where
  "KeyTable_export E output types_file =
     handle_py4j (\<lambda>s. bind (invoke E (u_jkt (self s)) ''export''
                              [u_jsc (hc (self s)), output, types_file])
                        (\<lambda>v. ret RNone) s)"

definition KeyTable_filter :: "env \<Rightarrow> val \<Rightarrow> val \<Rightarrow> (keytable, result) py" where
  "KeyTable_filter E condition keep =
     handle_py4j (\<lambda>s. bind (invoke E (u_jkt (self s)) ''filter'' [condition, keep])
                        (\<lambda>v. ret (RKeyTable (KeyTable_init (hc (self s)) v))) s)"

text \<open>\<^verbatim>\<open>if isinstance(x, list): x = sep.join(x)\<close>\<close>

definition join_if_list :: "string \<Rightarrow> val \<Rightarrow> pyerr + val" where
  "join_if_list sep x =
     (case x of
        VList xs \<Rightarrow> (case str_join sep xs of Inl e \<Rightarrow> Inl e | Inr r \<Rightarrow> Inr (VStr r))
      | _ \<Rightarrow> Inr x)"

definition KeyTable_annotate :: "env \<Rightarrow> val \<Rightarrow> (keytable, result) py" where
  "KeyTable_annotate E expr =
     handle_py4j (\<lambda>s. bind (lift (join_if_list '','' expr))
       (\<lambda>expr'. bind (invoke E (u_jkt (self s)) ''annotate'' [expr'])
          (\<lambda>v. ret (RKeyTable (KeyTable_init (hc (self s)) v)))) s)"

text \<open>\<^verbatim>\<open>join\<close> is the one method of the class without the decorator.\<close>

definition KeyTable_join :: "env \<Rightarrow> keytable \<Rightarrow> val \<Rightarrow> (keytable, result) py" where
  "KeyTable_join E right how s =
     bind (invoke E (u_jkt (self s)) ''join'' [u_jkt right, how])
       (\<lambda>v. ret (RKeyTable (KeyTable_init (hc (self s)) v))) s"

definition KeyTable_aggregate_by_key :: "env \<Rightarrow> val \<Rightarrow> val \<Rightarrow> (keytable, result) py" where
  "KeyTable_aggregate_by_key E key_expr agg_expr =
     handle_py4j (\<lambda>s. bind (lift (join_if_list '','' key_expr))
       (\<lambda>key_expr'. bind (lift (join_if_list '', '' agg_expr))
          (\<lambda>agg_expr'. bind (invoke E (u_jkt (self s)) ''aggregate'' [key_expr', agg_expr'])
             (\<lambda>v. ret (RKeyTable (KeyTable_init (hc (self s)) v))))) s)"

definition KeyTable_forall :: "env \<Rightarrow> val \<Rightarrow> (keytable, result) py" where
  "KeyTable_forall E code =
     handle_py4j (\<lambda>s. bind (invoke E (u_jkt (self s)) ''forall'' [code])
                        (\<lambda>v. ret (RVal v)) s)"

definition KeyTable_exists :: "env \<Rightarrow> val \<Rightarrow> (keytable, result) py" where
  "KeyTable_exists E code =
     handle_py4j (\<lambda>s. bind (invoke E (u_jkt (self s)) ''exists'' [code])
                        (\<lambda>v. ret (RVal v)) s)"

definition KeyTable_rename :: "env \<Rightarrow> val \<Rightarrow> (keytable, result) py" where
  "KeyTable_rename E column_names =
     handle_py4j (\<lambda>s. bind (invoke E (u_jkt (self s)) ''rename'' [column_names])
                        (\<lambda>v. ret (RKeyTable (KeyTable_init (hc (self s)) v))) s)"

definition KeyTable_expand_types :: "env \<Rightarrow> (keytable, result) py" where
  "KeyTable_expand_types E =
     handle_py4j (\<lambda>s. bind (invoke E (u_jkt (self s)) ''expandTypes'' [])
                        (\<lambda>v. ret (RKeyTable (KeyTable_init (hc (self s)) v))) s)"

text \<open>
  \<^verbatim>\<open>key_by\<close> evaluates \<^verbatim>\<open>self._jkt.select\<close>, then its arguments: the property
  \<^verbatim>\<open>self.column_names\<close> is read before the call is made.
\<close>

definition KeyTable_key_by :: "env \<Rightarrow> val \<Rightarrow> (keytable, result) py" where
  "KeyTable_key_by E key_names =
     handle_py4j (bind (KeyTable_column_names E)
       (\<lambda>cols s. bind (invoke E (u_jkt (self s)) ''select'' [cols, key_names])
          (\<lambda>v. ret (RKeyTable (KeyTable_init (hc (self s)) v))) s))"

definition KeyTable_flatten :: "env \<Rightarrow> (keytable, result) py" where
  "KeyTable_flatten E =
     handle_py4j (\<lambda>s. bind (invoke E (u_jkt (self s)) ''flatten'' [])
                        (\<lambda>v. ret (RKeyTable (KeyTable_init (hc (self s)) v))) s)"

text \<open>\<^verbatim>\<open>new_key_names = [k for k in self.key_names if k in column_names]\<close>\<close>

definition KeyTable_select :: "env \<Rightarrow> string list \<Rightarrow> (keytable, result) py" where
  "KeyTable_select E column_names =
     handle_py4j (bind (KeyTable_key_names E)
       (\<lambda>keys. bind (lift (py_list keys))
          (\<lambda>ks s. bind (invoke E (u_jkt (self s)) ''select''
                          [VList (map VStr column_names),
                           VList (filter (\<lambda>k. py_in k column_names) ks)])
             (\<lambda>v. ret (RKeyTable (KeyTable_init (hc (self s)) v))) s)))"

definition KeyTable_to_dataframe :: "env \<Rightarrow> val \<Rightarrow> val \<Rightarrow> (keytable, result) py" where
  "KeyTable_to_dataframe E expand flatten =
     handle_py4j (\<lambda>s.
       bind (if py_truthy expand then invoke E (u_jkt (self s)) ''expandTypes'' []
             else ret (u_jkt (self s)))
         (\<lambda>j1. bind (if py_truthy flatten then invoke E j1 ''flatten'' [] else ret j1)
            (\<lambda>j2. bind (invoke E j2 ''toDF'' [u_jsql_context (hc (self s))])
               (\<lambda>d. ret (RDataFrame d (u_sql_context (hc (self s))))))) s)"

text \<open>
  \<^verbatim>\<open>to_pandas\<close> calls \<^verbatim>\<open>toPandas()\<close> of the pyspark frame that \<^verbatim>\<open>to_dataframe\<close> returned;
  it is recorded as one call on the frame's handle.
\<close>

definition KeyTable_to_pandas :: "env \<Rightarrow> val \<Rightarrow> val \<Rightarrow> (keytable, result) py" where
  "KeyTable_to_pandas E expand flatten =
     handle_py4j (bind (KeyTable_to_dataframe E expand flatten)
       (\<lambda>r. case r of
              RDataFrame d c \<Rightarrow> bind (invoke E d ''toPandas'' []) (\<lambda>v. ret (RVal v))
            | _ \<Rightarrow> raise AttributeError))"

definition KeyTable_export_mongodb :: "env \<Rightarrow> val \<Rightarrow> (keytable, result) py" where
  "KeyTable_export_mongodb E mode =
     handle_py4j (\<lambda>s.
       bind (invoke E (VScalaPackageObject (VMember (u_hail (hc (self s))) ''driver''))
               ''exportMongoDB'' [u_jsql_context (hc (self s)), u_jkt (self s), mode])
         (\<lambda>v. ret RNone) s)"

definition KeyTable_explode :: "env \<Rightarrow> val \<Rightarrow> (keytable, result) py" where
  "KeyTable_explode E column_names =
     handle_py4j (\<lambda>s.
       bind (invoke E (u_jkt (self s)) ''explode''
               [case column_names of VStr x \<Rightarrow> VList [VStr x] | _ \<Rightarrow> column_names])
         (\<lambda>v. ret (RKeyTable (KeyTable_init (hc (self s)) v))) s)"

definition KeyTable_typecheck :: "env \<Rightarrow> (keytable, result) py" where
  "KeyTable_typecheck E =
     handle_py4j (\<lambda>s. bind (invoke E (u_jkt (self s)) ''typeCheck'' [])
                        (\<lambda>v. ret RNone) s)"

text \<open>The public methods of the class, and one invocation of each.\<close>

datatype kt_method =
    KT_count_rows
  | KT_same keytable
  | KT_export val val
  | KT_filter val val
  | KT_annotate val
  | KT_join keytable val
  | KT_aggregate_by_key val val
  | KT_forall val
  | KT_exists val
  | KT_rename val
  | KT_expand_types
  | KT_key_by val
  | KT_flatten
  | KT_select "string list"
  | KT_to_dataframe val val
  | KT_to_pandas val val
  | KT_export_mongodb val
  | KT_explode val

fun kt_call :: "env \<Rightarrow> kt_method \<Rightarrow> (keytable, result) py" where
  "kt_call E KT_count_rows = KeyTable_count_rows E"
| "kt_call E (KT_same other) = KeyTable_same E other"
| "kt_call E (KT_export output types_file) = KeyTable_export E output types_file"
| "kt_call E (KT_filter condition keep) = KeyTable_filter E condition keep"
| "kt_call E (KT_annotate expr) = KeyTable_annotate E expr"
| "kt_call E (KT_join right how) = KeyTable_join E right how"
| "kt_call E (KT_aggregate_by_key key_expr agg_expr) =
     KeyTable_aggregate_by_key E key_expr agg_expr"
| "kt_call E (KT_forall code) = KeyTable_forall E code"
| "kt_call E (KT_exists code) = KeyTable_exists E code"
| "kt_call E (KT_rename column_names) = KeyTable_rename E column_names"
| "kt_call E KT_expand_types = KeyTable_expand_types E"
| "kt_call E (KT_key_by key_names) = KeyTable_key_by E key_names"
| "kt_call E KT_flatten = KeyTable_flatten E"
| "kt_call E (KT_select column_names) = KeyTable_select E column_names"
| "kt_call E (KT_to_dataframe expand flatten) = KeyTable_to_dataframe E expand flatten"
| "kt_call E (KT_to_pandas expand flatten) = KeyTable_to_pandas E expand flatten"
| "kt_call E (KT_export_mongodb mode) = KeyTable_export_mongodb E mode"
| "kt_call E (KT_explode column_names) = KeyTable_explode E column_names"

datatype kt_property = P_num_columns | P_schema | P_key_names | P_column_names

fun kt_get :: "env \<Rightarrow> kt_property \<Rightarrow> (keytable, val) py" where
  "kt_get E P_num_columns = KeyTable_num_columns E"
| "kt_get E P_schema = KeyTable_schema E"
| "kt_get E P_key_names = KeyTable_key_names E"
| "kt_get E P_column_names = KeyTable_column_names E"

section \<open>HailContext\<close>

definition HailContext_grep :: "env \<Rightarrow> val \<Rightarrow> val \<Rightarrow> val \<Rightarrow> (hailcontext, result) py" where
  "HailContext_grep E regex path max_count =
     handle_py4j (\<lambda>s. bind (invoke E (u_jhc (self s)) ''grep''
                              [regex, VIndexedSeqArgs path, max_count])
                        (\<lambda>v. ret RNone) s)"

definition HailContext_import_annotations_table ::
  "env \<Rightarrow> val \<Rightarrow> val \<Rightarrow> val \<Rightarrow> val \<Rightarrow> val \<Rightarrow> (hailcontext, result) py" where
  "HailContext_import_annotations_table E path variant_expr code npartitions config =
     handle_py4j (\<lambda>s. bind (invoke E (u_jhc (self s)) ''importAnnotationsTables''
                              [VIndexedSeqArgs path, variant_expr, VOption code,
                               VOption npartitions, VToJava config])
                        (\<lambda>jvds. ret (RVariantDataset (self s) jvds)) s)"

text \<open>
  \<^verbatim>\<open>import_bgen\<close> takes \<^verbatim>\<open>compress\<close> and documents it, and passes the literal \<^verbatim>\<open>True\<close>
  in its place.
\<close>

definition HailContext_import_bgen ::
  "env \<Rightarrow> val \<Rightarrow> val \<Rightarrow> val \<Rightarrow> val \<Rightarrow> val \<Rightarrow> (hailcontext, result) py" where
  "HailContext_import_bgen E path tolerance sample_file npartitions compress =
     handle_py4j (\<lambda>s. bind (invoke E (u_jhc (self s)) ''importBgens''
                              [VIndexedSeqArgs path, VOption sample_file, tolerance,
                               VOption npartitions, VBool True])
                        (\<lambda>jvds. ret (RVariantDataset (self s) jvds)) s)"

definition HailContext_import_gen ::
  "env \<Rightarrow> val \<Rightarrow> val \<Rightarrow> val \<Rightarrow> val \<Rightarrow> val \<Rightarrow> val \<Rightarrow> (hailcontext, result) py" where
  "HailContext_import_gen E path sample_file tolerance npartitions chromosome compress =
     handle_py4j (\<lambda>s. bind (invoke E (u_jhc (self s)) ''importGens''
                              [VIndexedSeqArgs path, sample_file, VOption chromosome,
                               VOption npartitions, tolerance, compress])
                        (\<lambda>jvds. ret (RVariantDataset (self s) jvds)) s)"

text \<open>\<^verbatim>\<open>if not config: config = TextTableConfig()\<close>\<close>

definition HailContext_import_keytable ::
  "env \<Rightarrow> val \<Rightarrow> val \<Rightarrow> val \<Rightarrow> val \<Rightarrow> (hailcontext, result) py" where
  "HailContext_import_keytable E path key_names npartitions config =
     handle_py4j (\<lambda>s. bind (invoke E (u_jhc (self s)) ''importKeyTable''
                              [VIndexedSeqArgs path, VIndexedSeqArgs key_names,
                               VOption npartitions,
                               VToJava (if py_truthy config then config else VTextTableConfig)])
                        (\<lambda>j. ret (RKeyTable (KeyTable_init (self s) j))) s)"

definition HailContext_import_plink ::
  "env \<Rightarrow> val \<Rightarrow> val \<Rightarrow> val \<Rightarrow> val \<Rightarrow> val \<Rightarrow> val \<Rightarrow> val \<Rightarrow> val \<Rightarrow> (hailcontext, result) py"
  where
  "HailContext_import_plink E bed bim fam npartitions delimiter missing quantpheno compress =
     handle_py4j (\<lambda>s. bind (invoke E (u_jhc (self s)) ''importPlink''
                              [bed, bim, fam, VOption npartitions, delimiter, missing,
                               quantpheno, compress])
                        (\<lambda>jvds. ret (RVariantDataset (self s) jvds)) s)"

definition HailContext_read :: "env \<Rightarrow> val \<Rightarrow> val \<Rightarrow> val \<Rightarrow> (hailcontext, result) py" where
  "HailContext_read E path sites_only samples_only =
     handle_py4j (\<lambda>s. bind (invoke E (u_jhc (self s)) ''readAll''
                              [VIndexedSeqArgs path, sites_only, samples_only])
                        (\<lambda>jvds. ret (RVariantDataset (self s) jvds)) s)"

definition HailContext_write_partitioning :: "env \<Rightarrow> val \<Rightarrow> (hailcontext, result) py" where
  "HailContext_write_partitioning E path =
     handle_py4j (\<lambda>s. bind (invoke E (u_jhc (self s)) ''writePartitioning'' [path])
                        (\<lambda>v. ret RNone) s)"

definition HailContext_import_vcf ::
  "env \<Rightarrow> val \<Rightarrow> val \<Rightarrow> val \<Rightarrow> val \<Rightarrow> val \<Rightarrow> val \<Rightarrow> val \<Rightarrow> val \<Rightarrow> val \<Rightarrow> val \<Rightarrow>
   (hailcontext, result) py" where
  "HailContext_import_vcf E path force force_bgz header_file npartitions sites_only store_gq
       pp_as_pl skip_bad_ad compress =
     handle_py4j (\<lambda>s. bind (invoke E (u_jhc (self s)) ''importVCFs''
                              [VIndexedSeqArgs path, force, force_bgz, VOption header_file,
                               VOption npartitions, sites_only, store_gq, pp_as_pl,
                               skip_bad_ad, compress])
                        (\<lambda>jvds. ret (RVariantDataset (self s) jvds)) s)"

definition HailContext_index_bgen :: "env \<Rightarrow> val \<Rightarrow> (hailcontext, result) py" where
  "HailContext_index_bgen E path =
     handle_py4j (\<lambda>s. bind (invoke E (u_jhc (self s)) ''indexBgen'' [VIndexedSeqArgs path])
                        (\<lambda>v. ret RNone) s)"

text \<open>
  \<^verbatim>\<open>joption(x) if x is None else joption(jarray(self._jvm.double, x))\<close>, for \<^verbatim>\<open>pop_dist\<close>
  and \<^verbatim>\<open>fst\<close>.
\<close>

definition jvm_double_array_opt :: "hailcontext \<Rightarrow> val \<Rightarrow> val" where
  "jvm_double_array_opt h x =
     (if x = VNone then VOption x else VOption (VArray (VMember (u_jvm h) ''double'') x))"

definition HailContext_balding_nichols_model ::
  "env \<Rightarrow> val \<Rightarrow> val \<Rightarrow> val \<Rightarrow> val \<Rightarrow> val \<Rightarrow> val \<Rightarrow> val \<Rightarrow> val \<Rightarrow> (hailcontext, result) py"
  where
  "HailContext_balding_nichols_model E populations samples variants npartitions pop_dist fst'
       af_dist seed =
     handle_py4j (\<lambda>s. bind (invoke E (u_jhc (self s)) ''baldingNicholsModel''
                              [populations, samples, variants, VOption npartitions,
                               jvm_double_array_opt (self s) pop_dist,
                               jvm_double_array_opt (self s) fst',
                               VJrep af_dist, seed])
                        (\<lambda>jvds. ret (RVariantDataset (self s) jvds)) s)"

text \<open>
  \<^verbatim>\<open>dataframe_to_keytable(df, keys)\<close> reads \<^verbatim>\<open>df._jdf\<close>; the argument \<open>jdf\<close> is that field
  of the pyspark frame.
\<close>

definition HailContext_dataframe_to_keytable ::
  "env \<Rightarrow> val \<Rightarrow> val \<Rightarrow> (hailcontext, result) py" where
  "HailContext_dataframe_to_keytable E jdf keys =
     handle_py4j (\<lambda>s.
       bind (invoke E (VMember (VMember (u_hail (self s)) ''keytable'') ''KeyTable'') ''fromDF''
               [u_jhc (self s), jdf,
                VArray (VMember (VMember (VMember (u_jvm (self s)) ''java'') ''lang'') ''String'')
                  keys])
         (\<lambda>j. ret (RKeyTable (KeyTable_init (self s) j))) s)"

text \<open>\<^verbatim>\<open>stop\<close> has no decorator; it calls the pyspark context and forgets it.\<close>

definition HailContext_stop :: "env \<Rightarrow> (hailcontext, result) py" where
  "HailContext_stop E s =
     bind (invoke E (sc (self s)) ''stop'' [])
       (\<lambda>v s'. (Inr RNone, s'\<lparr>self := (self s')\<lparr>sc := VNone\<rparr>\<rparr>)) s"

datatype hc_method =
    HC_grep val val val
  | HC_import_annotations_table val val val val val
  | HC_import_bgen val val val val val
  | HC_import_gen val val val val val val
  | HC_import_keytable val val val val
  | HC_import_plink val val val val val val val val
  | HC_read val val val
  | HC_write_partitioning val
  | HC_import_vcf val val val val val val val val val val
  | HC_index_bgen val
  | HC_balding_nichols_model val val val val val val val val
  | HC_dataframe_to_keytable val val
  | HC_stop

fun hc_call :: "env \<Rightarrow> hc_method \<Rightarrow> (hailcontext, result) py" where
  "hc_call E (HC_grep regex path max_count) = HailContext_grep E regex path max_count"
| "hc_call E (HC_import_annotations_table path variant_expr code npartitions config) =
     HailContext_import_annotations_table E path variant_expr code npartitions config"
| "hc_call E (HC_import_bgen path tolerance sample_file npartitions compress) =
     HailContext_import_bgen E path tolerance sample_file npartitions compress"
| "hc_call E (HC_import_gen path sample_file tolerance npartitions chromosome compress) =
     HailContext_import_gen E path sample_file tolerance npartitions chromosome compress"
| "hc_call E (HC_import_keytable path key_names npartitions config) =
     HailContext_import_keytable E path key_names npartitions config"
| "hc_call E (HC_import_plink bed bim fam npartitions delimiter missing quantpheno compress) =
     HailContext_import_plink E bed bim fam npartitions delimiter missing quantpheno compress"
| "hc_call E (HC_read path sites_only samples_only) =
     HailContext_read E path sites_only samples_only"
| "hc_call E (HC_write_partitioning path) = HailContext_write_partitioning E path"
| "hc_call E (HC_import_vcf path force force_bgz header_file npartitions sites_only store_gq
       pp_as_pl skip_bad_ad compress) =
     HailContext_import_vcf E path force force_bgz header_file npartitions sites_only store_gq
       pp_as_pl skip_bad_ad compress"
| "hc_call E (HC_index_bgen path) = HailContext_index_bgen E path"
| "hc_call E (HC_balding_nichols_model populations samples variants npartitions pop_dist fst'
       af_dist seed) =
     HailContext_balding_nichols_model E populations samples variants npartitions pop_dist fst'
       af_dist seed"
| "hc_call E (HC_dataframe_to_keytable jdf keys) = HailContext_dataframe_to_keytable E jdf keys"
| "hc_call E HC_stop = HailContext_stop E"

section \<open>Statements about all methods\<close>

text \<open>
  The shape of what a method hands back after a successful remote call: nothing, the
  remote value itself, or the handle wrapped in one of the three facade classes.
\<close>

datatype shape = Nothing | Plain | Table | Dataset | Frame

fun wrap :: "shape \<Rightarrow> hailcontext \<Rightarrow> val \<Rightarrow> result" where
  "wrap Nothing h v = RNone"
| "wrap Plain h v = RVal v"
| "wrap Table h v = RKeyTable (KeyTable_init h v)"
| "wrap Dataset h v = RVariantDataset h v"
| "wrap Frame h v = RDataFrame v (u_sql_context h)"

fun kt_shape :: "kt_method \<Rightarrow> shape" where
  "kt_shape KT_count_rows = Plain"
| "kt_shape (KT_same other) = Plain"
| "kt_shape (KT_export output types_file) = Nothing"
| "kt_shape (KT_forall code) = Plain"
| "kt_shape (KT_exists code) = Plain"
| "kt_shape (KT_to_dataframe expand flatten) = Frame"
| "kt_shape (KT_to_pandas expand flatten) = Plain"
| "kt_shape (KT_export_mongodb mode) = Nothing"
| "kt_shape _ = Table"


text \<open>The transformation methods of a key table.\<close>

fun is_transformation :: "kt_method \<Rightarrow> bool" where
  "is_transformation (KT_filter condition keep) = True"
| "is_transformation (KT_annotate expr) = True"
| "is_transformation (KT_join right how) = True"
| "is_transformation (KT_aggregate_by_key key_expr agg_expr) = True"
| "is_transformation (KT_rename column_names) = True"
| "is_transformation KT_expand_types = True"
| "is_transformation (KT_key_by key_names) = True"
| "is_transformation KT_flatten = True"
| "is_transformation (KT_select column_names) = True"
| "is_transformation (KT_explode column_names) = True"
| "is_transformation _ = False"




section \<open>Concrete objects and engines\<close>

definition hc0 :: hailcontext where
  "hc0 = \<lparr>u_gateway = VObj 0, u_jvm = VObj 1, u_hail = VObj 2, u_jhc = VObj 3,
          u_jsc = VObj 4, sc = VObj 5, u_jsql_context = VObj 6, u_sql_context = VObj 7\<rparr>"

definition kt1 :: keytable where
  "kt1 = KeyTable_init hc0 (VObj 10)"


text \<open>
  An engine that answers every call: the accessors of the example table \<^verbatim>\<open>kt1\<close> of the
  docstrings, and a fresh handle for everything else.
\<close>

definition answer :: "jcall list \<Rightarrow> jcall \<Rightarrow> val" where
  "answer past c =
     (if meth c = ''nFields'' then VInt 8
      else if meth c = ''nRows'' then VInt 4
      else if meth c = ''keyNames'' then VList [VStr ''ID'', VStr ''HT'']
      else if meth c = ''fieldNames'' then VList [VStr ''ID'', VStr ''HT'', VStr ''SEX'']
      else VObj (100 + length past))"

definition E_ok :: env where
  "E_ok = \<lparr>remote = (\<lambda>past c. Inr (answer past c)), type_from_java = Inr,
           is_TStruct = (\<lambda>t. True)\<rparr>"



definition start :: "'o \<Rightarrow> 'o pystate" where
  "start x = \<lparr>self = x, calls = []\<rparr>"

section \<open>Lemmas on the bridge\<close>

lemma invoke_Inr:
  "invoke E r m as s = (Inr v, s') \<longleftrightarrow>
     is_obj r \<and> remote E (calls s) \<lparr>recv = r, meth = m, args = as\<rparr> = Inr v \<and>
     s' = s\<lparr>calls := calls s @ [\<lparr>recv = r, meth = m, args = as\<rparr>]\<rparr>"
  by (auto simp: invoke_def Let_def split: sum.splits)

lemma handle_py4j_Inr: "handle_py4j m s = (Inr r, s') \<longleftrightarrow> m s = (Inr r, s')"
  by (auto simp: handle_py4j_def split: prod.splits sum.splits pyerr.splits)

lemma handle_py4j_snd: "snd (handle_py4j m s) = snd (m s)"
  by (auto simp: handle_py4j_def split: prod.splits sum.splits pyerr.splits)

lemma handle_py4j_never_raw: "fst (handle_py4j m s) \<noteq> Inl (Py4JJavaError x)"
  by (auto simp: handle_py4j_def split: prod.splits sum.splits pyerr.splits)

lemma bind_Inr:
  "bind m f s = (Inr r, s') \<longleftrightarrow> (\<exists>a s1. m s = (Inr a, s1) \<and> f a s1 = (Inr r, s'))"
  by (auto simp: bind_def split: prod.splits sum.splits)

lemma ret_Inr: "ret x s = (Inr r, s') \<longleftrightarrow> r = x \<and> s' = s"
  by (auto simp: ret_def)

lemma lift_Inr: "lift x s = (Inr r, s') \<longleftrightarrow> x = Inr r \<and> s' = s"
  by (auto simp: lift_def)

lemma raise_Inr: "raise e s = (Inr r, s') \<longleftrightarrow> False"
  by (simp add: raise_def)

lemmas run_Inr = handle_py4j_Inr bind_Inr ret_Inr lift_Inr raise_Inr invoke_Inr

section \<open>Argument forwarding\<close>

text \<open>
  Claim C1. Every method passes to the remote call the arguments it received; in
  particular \<^verbatim>\<open>import_bgen\<close> passes its \<^verbatim>\<open>compress\<close>. The code does not: called with
  \<^verbatim>\<open>compress=False\<close>, on any engine, \<^verbatim>\<open>import_bgen\<close> calls \<^verbatim>\<open>importBgens\<close> with \<^verbatim>\<open>True\<close>
  as the last argument. The sibling methods \<^verbatim>\<open>import_gen\<close>, \<^verbatim>\<open>import_plink\<close> and
  \<^verbatim>\<open>import_vcf\<close> pass \<^verbatim>\<open>compress\<close> on.
\<close>

theorem import_bgen_drops_compress:
  "calls (snd (hc_call E (HC_import_bgen (VStr ''a.bgen'') (VFloat 1 (- 2)) VNone VNone
                            (VBool False)) (start hc0))) =
     [\<lparr>recv = VObj 3, meth = ''importBgens'',
       args = [VIndexedSeqArgs (VStr ''a.bgen''), VOption VNone, VFloat 1 (- 2),
               VOption VNone, VBool True]\<rparr>]"
  by (simp add: HailContext_import_bgen_def handle_py4j_snd bind_def invoke_def Let_def
        ret_def start_def hc0_def split: sum.splits prod.splits)

section \<open>Remote failures\<close>

text \<open>
  The decorated methods: every public method but \<^verbatim>\<open>KeyTable.join\<close> and
  \<^verbatim>\<open>HailContext.stop\<close> never lets the bridge's own error out.
\<close>

lemma decorated_kt_methods_translate:
  assumes "\<forall>right how. m \<noteq> KT_join right how"
  shows "fst (kt_call E m s) \<noteq> Inl (Py4JJavaError x)"
  using assms
  by (cases m)
     (simp_all add: KeyTable_count_rows_def KeyTable_same_def KeyTable_export_def
        KeyTable_filter_def KeyTable_annotate_def KeyTable_aggregate_by_key_def
        KeyTable_forall_def KeyTable_exists_def KeyTable_rename_def KeyTable_expand_types_def
        KeyTable_key_by_def KeyTable_flatten_def KeyTable_select_def KeyTable_to_dataframe_def
        KeyTable_to_pandas_def KeyTable_export_mongodb_def KeyTable_explode_def
        handle_py4j_never_raw)

lemma decorated_hc_methods_translate:
  assumes "m \<noteq> HC_stop"
  shows "fst (hc_call E m s) \<noteq> Inl (Py4JJavaError x)"
  using assms
  by (cases m)
     (simp_all add: HailContext_grep_def HailContext_import_annotations_table_def
        HailContext_import_bgen_def HailContext_import_gen_def HailContext_import_keytable_def
        HailContext_import_plink_def HailContext_read_def HailContext_write_partitioning_def
        HailContext_import_vcf_def HailContext_index_bgen_def
        HailContext_balding_nichols_model_def HailContext_dataframe_to_keytable_def
        handle_py4j_never_raw)


section \<open>Exploding one column\<close>


section \<open>What a successful call returns\<close>

lemmas kt_defs = KeyTable_count_rows_def KeyTable_same_def KeyTable_export_def
  KeyTable_filter_def KeyTable_annotate_def KeyTable_join_def KeyTable_aggregate_by_key_def
  KeyTable_forall_def KeyTable_exists_def KeyTable_rename_def KeyTable_expand_types_def
  KeyTable_key_by_def KeyTable_flatten_def KeyTable_select_def KeyTable_to_dataframe_def
  KeyTable_to_pandas_def KeyTable_export_mongodb_def KeyTable_explode_def

lemmas prop_defs = KeyTable_num_columns_def KeyTable_schema_def KeyTable_key_names_def
  KeyTable_column_names_def


lemma to_dataframe_Inr:
  assumes "KeyTable_to_dataframe E e f s = (Inr r, s')"
  shows "\<exists>d. r = RDataFrame d (u_sql_context (hc (self s))) \<and> self s' = self s \<and>
            calls s' \<noteq> [] \<and> remote E (butlast (calls s')) (last (calls s')) = Inr d"
  using assms
  by (auto simp: KeyTable_to_dataframe_def run_Inr butlast_append split: if_splits)

lemma to_pandas_Inr:
  assumes "KeyTable_to_pandas E e f s = (Inr r, s')"
  shows "\<exists>v. r = RVal v \<and> self s' = self s \<and>
            calls s' \<noteq> [] \<and> remote E (butlast (calls s')) (last (calls s')) = Inr v"
proof -
  from assms obtain a s1 where a: "KeyTable_to_dataframe E e f s = (Inr a, s1)"
    and b: "(case a of
               RDataFrame d c \<Rightarrow> bind (invoke E d ''toPandas'' []) (\<lambda>v. ret (RVal v))
             | _ \<Rightarrow> raise AttributeError) s1 = (Inr r, s')"
    by (auto simp: KeyTable_to_pandas_def handle_py4j_Inr bind_Inr)
  from to_dataframe_Inr[OF a] obtain d
    where d: "a = RDataFrame d (u_sql_context (hc (self s)))" and s1: "self s1 = self s"
    by blast
  from b d s1 show ?thesis
    by (auto simp: run_Inr)
qed

lemma kt_result_shape:
  assumes "kt_call E m s = (Inr r, s')"
  shows "\<exists>v. calls s' \<noteq> [] \<and> remote E (butlast (calls s')) (last (calls s')) = Inr v \<and>
             r = wrap (kt_shape m) (hc (self s)) v"
proof (cases m)
  case (KT_to_dataframe e f)
  with assms to_dataframe_Inr[of E e f s r s'] show ?thesis by auto
next
  case (KT_to_pandas e f)
  with assms to_pandas_Inr[of E e f s r s'] show ?thesis by auto
qed (use assms in \<open>auto simp: kt_defs prop_defs run_Inr butlast_append split: if_splits\<close>)





section \<open>The fields of a key table\<close>

lemma to_dataframe_self: "self (snd (KeyTable_to_dataframe E e f s)) = self s"
  by (simp add: KeyTable_to_dataframe_def handle_py4j_snd bind_def invoke_def Let_def ret_def
        split: sum.splits prod.splits)

lemma to_pandas_self: "self (snd (KeyTable_to_pandas E e f s)) = self s"
proof -
  obtain a s1 where a: "KeyTable_to_dataframe E e f s = (a, s1)"
    by (cases "KeyTable_to_dataframe E e f s")
  with to_dataframe_self[of E e f s] have "self s1 = self s" by simp
  with a show ?thesis
    by (auto simp: KeyTable_to_pandas_def handle_py4j_snd bind_def invoke_def Let_def ret_def
          raise_def split: sum.splits prod.splits result.splits)
qed

lemma column_names_self:
  "self (snd (KeyTable_column_names E s)) = self s \<or>
   (\<exists>xs. u_column_names (self s) = VNone \<and>
      self (snd (KeyTable_column_names E s)) = (self s)\<lparr>u_column_names := VList xs\<rparr>)"
  by (auto simp: KeyTable_column_names_def bind_def invoke_def Let_def lift_def
        split: sum.splits prod.splits)

lemma key_names_self:
  "self (snd (KeyTable_key_names E s)) = self s \<or>
   (\<exists>xs. u_key_names (self s) = VNone \<and>
      self (snd (KeyTable_key_names E s)) = (self s)\<lparr>u_key_names := VList xs\<rparr>)"
  by (auto simp: KeyTable_key_names_def bind_def invoke_def Let_def lift_def
        split: sum.splits prod.splits)

lemma key_by_self:
  "self (snd (KeyTable_key_by E ks s)) = self (snd (KeyTable_column_names E s))"
  by (cases "KeyTable_column_names E s")
     (auto simp: KeyTable_key_by_def handle_py4j_snd bind_def invoke_def Let_def ret_def
        split: sum.splits prod.splits)

lemma select_self:
  "self (snd (KeyTable_select E cs s)) = self (snd (KeyTable_key_names E s))"
  by (cases "KeyTable_key_names E s")
     (auto simp: KeyTable_select_def handle_py4j_snd bind_def invoke_def Let_def ret_def lift_def
        split: sum.splits prod.splits)

text \<open>
  A method leaves the receiver as it was, except that \<^verbatim>\<open>key_by\<close> and \<^verbatim>\<open>select\<close> may fill
  the memo of the property they read.
\<close>

lemma kt_call_self:
  "self (snd (kt_call E m s)) = self s \<or>
   (\<exists>ks xs. m = KT_key_by ks \<and> u_column_names (self s) = VNone \<and>
      self (snd (kt_call E m s)) = (self s)\<lparr>u_column_names := VList xs\<rparr>) \<or>
   (\<exists>cs xs. m = KT_select cs \<and> u_key_names (self s) = VNone \<and>
      self (snd (kt_call E m s)) = (self s)\<lparr>u_key_names := VList xs\<rparr>)"
proof (cases m)
  case KT_count_rows
  then show ?thesis
    by (simp add: KeyTable_count_rows_def handle_py4j_snd bind_def invoke_def Let_def ret_def
          split: sum.splits)
next
  case (KT_same other)
  then show ?thesis
    by (simp add: KeyTable_same_def handle_py4j_snd bind_def invoke_def Let_def ret_def
          split: sum.splits)
next
  case (KT_export out tf)
  then show ?thesis
    by (simp add: KeyTable_export_def handle_py4j_snd bind_def invoke_def Let_def ret_def
          split: sum.splits)
next
  case (KT_filter condition keep)
  then show ?thesis
    by (simp add: KeyTable_filter_def handle_py4j_snd bind_def invoke_def Let_def ret_def
          split: sum.splits)
next
  case (KT_annotate expr)
  then show ?thesis
    by (simp add: KeyTable_annotate_def handle_py4j_snd bind_def invoke_def Let_def ret_def
          lift_def split: sum.splits)
next
  case (KT_join right how)
  then show ?thesis
    by (simp add: KeyTable_join_def bind_def invoke_def Let_def ret_def split: sum.splits)
next
  case (KT_aggregate_by_key key_expr agg_expr)
  then show ?thesis
    by (simp add: KeyTable_aggregate_by_key_def handle_py4j_snd bind_def invoke_def Let_def
          ret_def lift_def split: sum.splits)
next
  case (KT_forall code)
  then show ?thesis
    by (simp add: KeyTable_forall_def handle_py4j_snd bind_def invoke_def Let_def ret_def
          split: sum.splits)
next
  case (KT_exists code)
  then show ?thesis
    by (simp add: KeyTable_exists_def handle_py4j_snd bind_def invoke_def Let_def ret_def
          split: sum.splits)
next
  case (KT_rename column_names)
  then show ?thesis
    by (simp add: KeyTable_rename_def handle_py4j_snd bind_def invoke_def Let_def ret_def
          split: sum.splits)
next
  case KT_expand_types
  then show ?thesis
    by (simp add: KeyTable_expand_types_def handle_py4j_snd bind_def invoke_def Let_def ret_def
          split: sum.splits)
next
  case (KT_key_by ks)
  with column_names_self[of E s] show ?thesis by (auto simp: key_by_self)
next
  case KT_flatten
  then show ?thesis
    by (simp add: KeyTable_flatten_def handle_py4j_snd bind_def invoke_def Let_def ret_def
          split: sum.splits)
next
  case (KT_select cs)
  with key_names_self[of E s] show ?thesis by (auto simp: select_self)
next
  case (KT_to_dataframe expand flatten)
  then show ?thesis by (simp add: to_dataframe_self)
next
  case (KT_to_pandas expand flatten)
  then show ?thesis by (simp add: to_pandas_self)
next
  case (KT_export_mongodb mode)
  then show ?thesis
    by (simp add: KeyTable_export_mongodb_def handle_py4j_snd bind_def invoke_def Let_def
          ret_def split: sum.splits)
next
  case (KT_explode column_names)
  then show ?thesis
    by (simp add: KeyTable_explode_def handle_py4j_snd bind_def invoke_def Let_def ret_def
          split: sum.splits)
qed

lemma kt_call_fields:
  "hc (self (snd (kt_call E m s))) = hc (self s) \<and>
   u_jkt (self (snd (kt_call E m s))) = u_jkt (self s) \<and>
   u_schema (self (snd (kt_call E m s))) = u_schema (self s) \<and>
   u_num_columns (self (snd (kt_call E m s))) = u_num_columns (self s) \<and>
   (u_key_names (self (snd (kt_call E m s))) \<noteq> u_key_names (self s) \<longrightarrow>
      u_key_names (self s) = VNone \<and> (\<exists>cs. m = KT_select cs)) \<and>
   (u_column_names (self (snd (kt_call E m s))) \<noteq> u_column_names (self s) \<longrightarrow>
      u_column_names (self s) = VNone \<and> (\<exists>ks. m = KT_key_by ks))"
  using kt_call_self[of E m s] by auto

lemma kt_get_fields:
  "hc (self (snd (kt_get E p s))) = hc (self s) \<and>
   u_jkt (self (snd (kt_get E p s))) = u_jkt (self s) \<and>
   (u_schema (self (snd (kt_get E p s))) \<noteq> u_schema (self s) \<longrightarrow>
      u_schema (self s) = VNone \<and> p = P_schema) \<and>
   (u_num_columns (self (snd (kt_get E p s))) \<noteq> u_num_columns (self s) \<longrightarrow>
      u_num_columns (self s) = VNone \<and> p = P_num_columns) \<and>
   (u_key_names (self (snd (kt_get E p s))) \<noteq> u_key_names (self s) \<longrightarrow>
      u_key_names (self s) = VNone \<and> p = P_key_names) \<and>
   (u_column_names (self (snd (kt_get E p s))) \<noteq> u_column_names (self s) \<longrightarrow>
      u_column_names (self s) = VNone \<and> p = P_column_names)"
  by (cases p) (auto simp: prop_defs bind_def invoke_def Let_def lift_def
        split: sum.splits prod.splits if_splits)

text \<open>
  Claim C4, as stated: a key table holds only the handle (and the context), and no
  operation reads or writes another field. It fails: reading \<^verbatim>\<open>num_columns\<close> on a new key
  table assigns the field \<^verbatim>\<open>_num_columns\<close>.
\<close>

theorem num_columns_assigns_field:
  "u_num_columns (self (start kt1)) = VNone \<and>
   u_num_columns (self (snd (kt_get E_ok P_num_columns (start kt1)))) = VInt 8"
  by (simp add: KeyTable_num_columns_def bind_def invoke_def Let_def start_def kt1_def
        KeyTable_init_def E_ok_def answer_def)

text \<open>
  Claim C4, amended. A key table holds the context, the remote handle and four memo
  fields, one for each property. No public method and no property changes the context or
  the handle. A memo field changes only while it is \<^verbatim>\<open>None\<close>, and only when the property
  of the same name is read: by the property itself, by \<^verbatim>\<open>key_by\<close> for \<^verbatim>\<open>_column_names\<close>
  and by \<^verbatim>\<open>select\<close> for \<^verbatim>\<open>_key_names\<close>.
\<close>

theorem keytable_fields_frame:
  "hc (self (snd (kt_call E m s))) = hc (self s) \<and>
   u_jkt (self (snd (kt_call E m s))) = u_jkt (self s) \<and>
   u_schema (self (snd (kt_call E m s))) = u_schema (self s) \<and>
   u_num_columns (self (snd (kt_call E m s))) = u_num_columns (self s) \<and>
   (u_key_names (self (snd (kt_call E m s))) \<noteq> u_key_names (self s) \<longrightarrow>
      u_key_names (self s) = VNone \<and> (\<exists>cs. m = KT_select cs)) \<and>
   (u_column_names (self (snd (kt_call E m s))) \<noteq> u_column_names (self s) \<longrightarrow>
      u_column_names (self s) = VNone \<and> (\<exists>ks. m = KT_key_by ks)) \<and>
   hc (self (snd (kt_get E p t))) = hc (self t) \<and>
   u_jkt (self (snd (kt_get E p t))) = u_jkt (self t) \<and>
   (u_schema (self (snd (kt_get E p t))) \<noteq> u_schema (self t) \<longrightarrow>
      u_schema (self t) = VNone \<and> p = P_schema) \<and>
   (u_num_columns (self (snd (kt_get E p t))) \<noteq> u_num_columns (self t) \<longrightarrow>
      u_num_columns (self t) = VNone \<and> p = P_num_columns) \<and>
   (u_key_names (self (snd (kt_get E p t))) \<noteq> u_key_names (self t) \<longrightarrow>
      u_key_names (self t) = VNone \<and> p = P_key_names) \<and>
   (u_column_names (self (snd (kt_get E p t))) \<noteq> u_column_names (self t) \<longrightarrow>
      u_column_names (self t) = VNone \<and> p = P_column_names)"
  using kt_call_fields[of E m s] kt_get_fields[of E p t] by blast

theorem keytable_fields_frame_witness:
  "u_key_names (self (snd (kt_call E_ok (KT_select [''HT'']) (start kt1)))) \<noteq>
     u_key_names (self (start kt1)) \<and>
   u_key_names (self (start kt1)) = VNone \<and>
   u_num_columns (self (snd (kt_get E_ok P_num_columns (start kt1)))) \<noteq>
     u_num_columns (self (start kt1)) \<and>
   u_num_columns (self (start kt1)) = VNone \<and>
   hc (self (snd (kt_call E_ok (KT_select [''HT'']) (start kt1)))) = hc0 \<and>
   u_jkt (self (snd (kt_call E_ok (KT_select [''HT'']) (start kt1)))) = VObj 10"
proof -
  have h1: "u_key_names (self (snd (kt_call E_ok (KT_select [''HT'']) (start kt1)))) \<noteq>
              u_key_names (self (start kt1))"
    by (simp add: KeyTable_select_def KeyTable_key_names_def handle_py4j_def bind_def lift_def
          invoke_def Let_def ret_def start_def kt1_def KeyTable_init_def E_ok_def answer_def)
  have h2: "u_num_columns (self (snd (kt_get E_ok P_num_columns (start kt1)))) \<noteq>
              u_num_columns (self (start kt1))"
    by (simp add: KeyTable_num_columns_def bind_def invoke_def Let_def start_def kt1_def
          KeyTable_init_def E_ok_def answer_def)
  have h3: "hc (self (start kt1)) = hc0" "u_jkt (self (start kt1)) = VObj 10"
    by (simp_all add: start_def kt1_def KeyTable_init_def)
  from keytable_fields_frame[of E_ok "KT_select [''HT'']" "start kt1" P_num_columns "start kt1"]
    h1 h2 h3
  show ?thesis by simp
qed

section \<open>Remote calls per invocation\<close>












section \<open>Transformations and the receiver\<close>

lemma transformation_shape: "is_transformation m \<Longrightarrow> kt_shape m = Table"
  by (cases m) simp_all

lemma transformation_result:
  assumes "is_transformation m" and "fst (kt_call E m s) = Inr r"
  shows "\<exists>v. r = RKeyTable (KeyTable_init (hc (self s)) v)"
proof -
  from assms(2) obtain s' where "kt_call E m s = (Inr r, s')"
    by (cases "kt_call E m s") simp
  from kt_result_shape[OF this] transformation_shape[OF assms(1)] show ?thesis
    by auto
qed

text \<open>
  Claim C6, as stated: every transformation method leaves all fields of the receiver as
  they were. It fails: \<^verbatim>\<open>key_by\<close> on a new key table reads \<^verbatim>\<open>self.column_names\<close>, which
  assigns the receiver's field \<^verbatim>\<open>_column_names\<close>.
\<close>

theorem key_by_assigns_column_names:
  "u_column_names (self (start kt1)) = VNone \<and>
   u_column_names (self (snd (kt_call E_ok (KT_key_by (VList [VStr ''HT''])) (start kt1)))) =
     VList [VStr ''ID'', VStr ''HT'', VStr ''SEX'']"
  by (simp add: KeyTable_key_by_def KeyTable_column_names_def handle_py4j_def bind_def
        lift_def invoke_def Let_def ret_def start_def kt1_def KeyTable_init_def E_ok_def
        answer_def)

text \<open>
  Claim C6, amended. Every transformation method (filter, annotate, join,
  aggregate_by_key, rename, expand_types, key_by, flatten, select, explode), when it
  returns, returns a new \<^verbatim>\<open>KeyTable\<close> built from the receiver's context and a handle, with
  empty memo fields. The receiver is the same before and after the call, except that
  \<^verbatim>\<open>key_by\<close> assigns a list to the receiver's \<^verbatim>\<open>_column_names\<close> and \<^verbatim>\<open>select\<close> to its
  \<^verbatim>\<open>_key_names\<close> when that field was \<^verbatim>\<open>None\<close>; the context and the handle never change.
\<close>

theorem transformation_frame:
  assumes "is_transformation m"
  shows "(\<forall>r. fst (kt_call E m s) = Inr r \<longrightarrow>
            (\<exists>v. r = RKeyTable (KeyTable_init (hc (self s)) v))) \<and>
         (self (snd (kt_call E m s)) = self s \<or>
          (\<exists>ks xs. m = KT_key_by ks \<and> u_column_names (self s) = VNone \<and>
             self (snd (kt_call E m s)) = (self s)\<lparr>u_column_names := VList xs\<rparr>) \<or>
          (\<exists>cs xs. m = KT_select cs \<and> u_key_names (self s) = VNone \<and>
             self (snd (kt_call E m s)) = (self s)\<lparr>u_key_names := VList xs\<rparr>))"
  using transformation_result[OF assms, of E s] kt_call_self[of E m s] by blast

theorem transformation_frame_witness:
  "is_transformation (KT_filter (VStr ''C1 == 5'') (VBool True)) \<and>
   fst (kt_call E_ok (KT_filter (VStr ''C1 == 5'') (VBool True)) (start kt1)) =
     Inr (RKeyTable (KeyTable_init hc0 (VObj 100))) \<and>
   (\<exists>v. RKeyTable (KeyTable_init hc0 (VObj 100)) =
          RKeyTable (KeyTable_init (hc (self (start kt1))) v)) \<and>
   self (snd (kt_call E_ok (KT_filter (VStr ''C1 == 5'') (VBool True)) (start kt1))) =
     self (start kt1)"
proof -
  let ?m = "KT_filter (VStr ''C1 == 5'') (VBool True)"
  have h1: "is_transformation ?m" by simp
  have h2: "fst (kt_call E_ok ?m (start kt1)) = Inr (RKeyTable (KeyTable_init hc0 (VObj 100)))"
    by (simp add: KeyTable_filter_def handle_py4j_def bind_def invoke_def Let_def ret_def
          start_def kt1_def KeyTable_init_def E_ok_def answer_def)
  from transformation_frame[OF h1, of E_ok "start kt1"] h2
  have "(\<exists>v. RKeyTable (KeyTable_init hc0 (VObj 100)) =
              RKeyTable (KeyTable_init (hc (self (start kt1))) v))"
    and "self (snd (kt_call E_ok ?m (start kt1))) = self (start kt1)"
    by auto
  with h1 h2 show ?thesis by blast
qed

section \<open>The key names passed by select\<close>

lemma filter_py_in:
  "filter (\<lambda>k. py_in k cs) (map VStr names) = map VStr (filter (\<lambda>n. n \<in> set cs) names)"
  by (induction names) auto

text \<open>
  Claim C7. For every key table and every list \<open>cs\<close> of column names, \<^verbatim>\<open>select(cs)\<close>
  passes to the remote \<^verbatim>\<open>select\<close>, as the new key names, exactly those of the table's key
  names that occur in \<open>cs\<close>, in the order of the key names. Here \<open>names\<close> is what the
  property \<^verbatim>\<open>key_names\<close> yields on the receiver, and the call is the one call that
  \<^verbatim>\<open>select\<close> adds after reading the property.
\<close>

theorem select_key_order:
  assumes "kt_get E P_key_names s = (Inr (VList (map VStr names)), s1)"
    and "is_obj (u_jkt (self s))"
  shows "calls (snd (kt_call E (KT_select cs) s)) =
           calls s1 @ [\<lparr>recv = u_jkt (self s), meth = ''select'',
                        args = [VList (map VStr cs),
                                VList (map VStr (filter (\<lambda>n. n \<in> set cs) names))]\<rparr>]"
proof -
  from assms(1) have k: "KeyTable_key_names E s = (Inr (VList (map VStr names)), s1)"
    by simp
  then have "self s1 = self s \<or> (\<exists>x. self s1 = (self s)\<lparr>u_key_names := x\<rparr>)"
    by (auto simp: KeyTable_key_names_def run_Inr split: if_splits)
  then have j: "u_jkt (self s1) = u_jkt (self s)" by auto
  from k j assms(2) show ?thesis
    by (simp add: KeyTable_select_def handle_py4j_snd bind_def lift_def invoke_def Let_def
          ret_def filter_py_in split: sum.splits)
qed

theorem select_key_order_witness:
  "kt_get E_ok P_key_names (start kt1) =
     (Inr (VList (map VStr [''ID'', ''HT''])),
      \<lparr>self = kt1\<lparr>u_key_names := VList [VStr ''ID'', VStr ''HT'']\<rparr>,
       calls = [\<lparr>recv = VObj 10, meth = ''keyNames'', args = []\<rparr>]\<rparr>) \<and>
   is_obj (u_jkt (self (start kt1))) \<and>
   calls (snd (kt_call E_ok (KT_select [''SEX'', ''HT'', ''ID'']) (start kt1))) =
     [\<lparr>recv = VObj 10, meth = ''keyNames'', args = []\<rparr>,
      \<lparr>recv = VObj 10, meth = ''select'',
       args = [VList [VStr ''SEX'', VStr ''HT'', VStr ''ID''],
               VList [VStr ''ID'', VStr ''HT'']]\<rparr>]"
proof -
  let ?S = "\<lparr>self = kt1\<lparr>u_key_names := VList [VStr ''ID'', VStr ''HT'']\<rparr>,
             calls = [\<lparr>recv = VObj 10, meth = ''keyNames'', args = []\<rparr>]\<rparr>"
  have h1: "kt_get E_ok P_key_names (start kt1) = (Inr (VList (map VStr [''ID'', ''HT''])), ?S)"
    by (simp add: KeyTable_key_names_def bind_def lift_def invoke_def Let_def start_def
          kt1_def KeyTable_init_def E_ok_def answer_def)
  have h2: "is_obj (u_jkt (self (start kt1)))"
    by (simp add: start_def kt1_def KeyTable_init_def)
  have h3: "u_jkt (self (start kt1)) = VObj 10"
    by (simp add: start_def kt1_def KeyTable_init_def)
  from select_key_order[OF h1 h2, of "[''SEX'', ''HT'', ''ID'']"] h3
  have "calls (snd (kt_call E_ok (KT_select [''SEX'', ''HT'', ''ID'']) (start kt1))) =
          [\<lparr>recv = VObj 10, meth = ''keyNames'', args = []\<rparr>,
           \<lparr>recv = VObj 10, meth = ''select'',
            args = [VList [VStr ''SEX'', VStr ''HT'', VStr ''ID''],
                    VList [VStr ''ID'', VStr ''HT'']]\<rparr>]"
    by simp
  with h1 h2 show ?thesis by blast
qed

section \<open>Memoized properties\<close>




end
